theory Spec2Isabelle
  imports Main "HOL-Library.Word"
begin

section \<open>Parakeet FastAPI bridge: a model of \<open>parakeet_fastapi/server.py\<close>\<close>

text \<open>
  The module keeps two globals (\<open>_model\<close>, \<open>_device\<close>), loads the ASR model lazily
  (\<open>_load_model\<close>), stages an upload in a temporary file and runs inference on it
  (\<open>_transcribe\<close>), turns a prediction of unknown shape into text
  (\<open>_coerce_prediction\<close>) and serves two routes (\<open>health_check\<close>, \<open>transcribe\<close>).

  Names follow the source. An Isabelle name cannot start with an underscore, so
  \<open>_load_model\<close> is \<open>load_model\<close>, \<open>_coerce_prediction\<close> is \<open>coerce_prediction\<close>, the
  globals \<open>_model\<close> and \<open>_device\<close> are the fields \<open>model\<close> and \<open>device\<close> of the state, and
  the helper \<open>_transcribe\<close> is \<open>transcribe_upload\<close> (the route keeps the name
  \<open>transcribe\<close>). The local variables \<open>text\<close> and \<open>value\<close> of the source are \<open>t\<close> and \<open>v\<close>.
\<close>

subsection \<open>Python strings\<close>

text \<open>
  A Python \<open>str\<close> is the list of its code points. A \<open>char\<close> of HOL has eight bits, so the
  model covers the strings over U+0000 .. U+00FF, one \<open>char\<close> per code point.

  \<open>str.strip()\<close> without argument removes the leading and the trailing run of
  characters for which \<open>str.isspace\<close> holds. Below U+0100 these are the code points
  9 .. 13, 28 .. 32, 133 and 160.
\<close>

definition is_space :: "char \<Rightarrow> bool" where
  "is_space c =
     (let n = (of_char c :: nat)
      in (9 \<le> n \<and> n \<le> 13) \<or> (28 \<le> n \<and> n \<le> 32) \<or> n = 133 \<or> n = 160)"

definition strip :: "string \<Rightarrow> string" where
  "strip s = rev (dropWhile is_space (rev (dropWhile is_space s)))"

definition startswith :: "string \<Rightarrow> string \<Rightarrow> bool" where
  "startswith s p = (take (length p) s = p)"

text \<open>
  \<open>repr\<close> of a \<open>str\<close>: the quote is the double quote exactly when the string holds a
  single quote and no double quote; the quote and the backslash are escaped with a
  backslash, tab, newline and carriage return are written \<open>\t\<close>, \<open>\n\<close>, \<open>\r\<close>, any other
  non-printable code point below U+0100 is written \<open>\xhh\<close> in lower-case hexadecimal.
  Below U+0100 the printable code points are 32 .. 126 and 161 .. 255 without 173.
\<close>

definition hex_digit :: "nat \<Rightarrow> char" where
  "hex_digit d = (if d < 10 then char_of (48 + d) else char_of (87 + d))"

definition is_printable :: "char \<Rightarrow> bool" where
  "is_printable c =
     (let n = (of_char c :: nat)
      in (32 \<le> n \<and> n < 127) \<or> (161 \<le> n \<and> n \<noteq> 173))"

definition repr_char :: "char \<Rightarrow> char \<Rightarrow> string" where
  "repr_char quote c =
     (if c = quote \<or> c = CHR 0x5C then [CHR 0x5C, c]
      else if c = CHR 0x09 then [CHR 0x5C, CHR ''t'']
      else if c = CHR 0x0A then [CHR 0x5C, CHR ''n'']
      else if c = CHR 0x0D then [CHR 0x5C, CHR ''r'']
      else if is_printable c then [c]
      else [CHR 0x5C, CHR ''x'', hex_digit (of_char c div 16), hex_digit (of_char c mod 16)])"

definition repr_str :: "string \<Rightarrow> string" where
  "repr_str s =
     (let quote = (if CHR 0x27 \<in> set s \<and> CHR 0x22 \<notin> set s then CHR 0x22 else CHR 0x27)
      in [quote] @ concat (map (repr_char quote) s) @ [quote])"

text \<open>\<open>repr\<close> of an \<open>int\<close>: its decimal digits, after a minus sign when it is negative.\<close>

function digits :: "nat \<Rightarrow> string" where
  "digits n =
     (if n < 10 then [char_of (48 + n)] else digits (n div 10) @ [char_of (48 + n mod 10)])"
  by pat_completeness auto
termination
  by (relation "measure id") auto

definition repr_int :: "int \<Rightarrow> string" where
  "repr_int i = (if i < 0 then CHR ''-'' # digits (nat (- i)) else digits (nat i))"

text \<open>\<open>sep.join(xs)\<close>.\<close>

fun join :: "string \<Rightarrow> string list \<Rightarrow> string" where
  "join sep [] = []"
| "join sep [x] = x"
| "join sep (x # y # ys) = x @ sep @ join sep (y # ys)"

subsection \<open>Prediction values\<close>

text \<open>
  \<open>_coerce_prediction\<close> takes \<open>Any\<close>. The values it tells apart are a \<open>str\<close>, a \<open>list\<close>
  or \<open>tuple\<close>, a \<open>dict\<close> (an association list in insertion order, keys and values being
  values again) and everything else. Of everything else the function reads only
  \<open>getattr(prediction, "text", None)\<close> and \<open>str(prediction)\<close>: \<open>PObj a s r\<close> is an object
  whose \<open>text\<close> attribute is \<open>a\<close> (\<open>None\<close> when it has none), whose \<open>str\<close> is \<open>s\<close> and
  whose \<open>repr\<close> is \<open>r\<close> (a NeMo \<open>Hypothesis\<close> is such an object). \<open>None\<close>, \<open>bool\<close> and
  \<open>int\<close> are kept as constructors of their own, since \<open>dict.get\<close> returns \<open>None\<close> for a
  missing key and their \<open>str\<close> is fixed by the language.
\<close>

datatype pyval =
    PNone
  | PBool bool
  | PInt int
  | PStr string
  | PList "pyval list"
  | PTuple "pyval list"
  | PDict "(pyval \<times> pyval) list"
  | PObj "pyval option" string string

text \<open>
  \<open>repr(v)\<close>: containers print their elements with \<open>repr\<close>, separated by a comma and a
  space; a one-element tuple ends in a comma; a dictionary prints \<open>key: value\<close>.
\<close>

fun py_repr :: "pyval \<Rightarrow> string" where
  "py_repr PNone = ''None''"
| "py_repr (PBool b) = (if b then ''True'' else ''False'')"
| "py_repr (PInt i) = repr_int i"
| "py_repr (PStr s) = repr_str s"
| "py_repr (PList xs) = ''['' @ join '', '' (map py_repr xs) @ '']''"
| "py_repr (PTuple xs) =
     ''('' @ join '', '' (map py_repr xs) @ (if length xs = 1 then '','' else []) @ '')''"
| "py_repr (PDict kvs) =
     ''{'' @ join '', '' (map (\<lambda>(k, v). py_repr k @ '': '' @ py_repr v) kvs) @ ''}''"
| "py_repr (PObj a s r) = r"

text \<open>\<open>str(v)\<close>: a string is itself, an object answers with its own \<open>__str__\<close>, the
  built-in containers and constants have no \<open>__str__\<close> of their own and print as \<open>repr\<close>.\<close>

fun py_str :: "pyval \<Rightarrow> string" where
  "py_str (PStr s) = s"
| "py_str (PObj a s r) = s"
| "py_str v = py_repr v"

text \<open>\<open>d.get(key)\<close>: the value stored under the key, \<open>None\<close> when there is none.\<close>

definition dict_get :: "(pyval \<times> pyval) list \<Rightarrow> pyval \<Rightarrow> pyval" where
  "dict_get d key = (case map_of d key of None \<Rightarrow> PNone | Some v \<Rightarrow> v)"

text \<open>\<open>getattr(prediction, "text", None)\<close>: only an object can carry the attribute;
  \<open>None\<close>, \<open>bool\<close>, \<open>int\<close>, \<open>str\<close>, \<open>list\<close>, \<open>tuple\<close> and \<open>dict\<close> have no attribute \<open>text\<close>.\<close>

fun getattr_text :: "pyval \<Rightarrow> pyval" where
  "getattr_text (PObj a s r) = (case a of None \<Rightarrow> PNone | Some v \<Rightarrow> v)"
| "getattr_text v = PNone"

subsection \<open>\<open>_coerce_prediction\<close>\<close>

text \<open>
  \<^verbatim>\<open>
  def _coerce_prediction(prediction: Any) -> str:
      if isinstance(prediction, str):
          return prediction.strip()
      if isinstance(prediction, (list, tuple)):
          for item in prediction:
              text = _coerce_prediction(item)
              if text:
                  return text
          return ""
      if isinstance(prediction, dict):
          for key in ("text", "transcript", "transcription", "result", "message", "detail"):
              value = prediction.get(key)
              if isinstance(value, str) and value.strip():
                  return value.strip()
      text_attr = getattr(prediction, "text", None)
      if isinstance(text_attr, str):
          return text_attr.strip()
      return str(prediction).strip()
  \<close>
  The loop over the candidate keys is \<open>probe_keys\<close> (\<open>None\<close> when it ends without a
  \<open>return\<close>), the loop over the items is \<open>coerce_items\<close>, and the last four lines, which
  a dictionary reaches when no key matched, are \<open>text_attr_or_str\<close>.
\<close>

definition candidate_keys :: "string list" where
  "candidate_keys =
     [''text'', ''transcript'', ''transcription'', ''result'', ''message'', ''detail'']"

fun probe_keys :: "(pyval \<times> pyval) list \<Rightarrow> string list \<Rightarrow> string option" where
  "probe_keys prediction [] = None"
| "probe_keys prediction (key # keys) =
     (case dict_get prediction (PStr key) of
        PStr v \<Rightarrow> if strip v \<noteq> [] then Some (strip v) else probe_keys prediction keys
      | _ \<Rightarrow> probe_keys prediction keys)"

definition text_attr_or_str :: "pyval \<Rightarrow> string" where
  "text_attr_or_str prediction =
     (case getattr_text prediction of
        PStr text_attr \<Rightarrow> strip text_attr
      | _ \<Rightarrow> strip (py_str prediction))"

fun coerce_prediction :: "pyval \<Rightarrow> string"
  and coerce_items :: "pyval list \<Rightarrow> string" where
  "coerce_prediction (PStr s) = strip s"
| "coerce_prediction (PList items) = coerce_items items"
| "coerce_prediction (PTuple items) = coerce_items items"
| "coerce_prediction (PDict d) =
     (case probe_keys d candidate_keys of
        Some t \<Rightarrow> t
      | None \<Rightarrow> text_attr_or_str (PDict d))"
| "coerce_prediction PNone = text_attr_or_str PNone"
| "coerce_prediction (PBool b) = text_attr_or_str (PBool b)"
| "coerce_prediction (PInt i) = text_attr_or_str (PInt i)"
| "coerce_prediction (PObj a s r) = text_attr_or_str (PObj a s r)"
| "coerce_items [] = []"
| "coerce_items (item # rest) =
     (let t = coerce_prediction item in if t \<noteq> [] then t else coerce_items rest)"

subsection \<open>Process state and the platform\<close>

text \<open>
  The module-level globals and the file system are the state. Two fields are
  instrumentation that the code never reads: \<open>created\<close> lists the temporary files made by
  \<open>tempfile.NamedTemporaryFile\<close>, in order, and \<open>restores\<close> counts the calls of
  \<open>ASRModel.restore_from\<close>, the underlying load.

  A path of the file system maps to the bytes stored under it; \<open>os.path.exists\<close> is
  membership in its domain.
\<close>

type_synonym bytes = "8 word list"

type_synonym fs = "string \<rightharpoonup> bytes"

record 'm state =
  model :: "'m option"
  device :: string
  files :: fs
  created :: "string list"
  restores :: nat

text \<open>
  The exceptions the module raises or handles itself, the two that creating the
  temporary file can raise (\<open>ValueError\<close> and \<open>OSError\<close>), and \<open>Raised\<close> for an exception
  that comes out of the model library (loading, \<open>eval\<close>, \<open>to\<close>, inference), carried by
  its description.
\<close>

datatype exn =
    HTTPException nat string
  | RuntimeError string
  | AssertionError
  | FileNotFoundError string
  | ValueError string
  | OSError string
  | Raised string

text \<open>
  What the module takes from outside: the environment variable \<open>MODEL_PATH\<close>,
  \<open>torch.cuda.is_available()\<close>, the model library (\<open>ASRModel.restore_from\<close>, and on a
  model handle of type \<open>'m\<close> the methods \<open>eval\<close>, \<open>to\<close> and \<open>transcribe\<close>) and what the
  operating system answers when \<open>NamedTemporaryFile\<close> opens a new file for a suffix:
  the path of the file (\<open>Inr\<close>), or the error of an \<open>OSError\<close> (\<open>Inl\<close>: the name is too
  long for the file system, the directory cannot be written, and so on). Each library
  call returns or raises; inference gets the file system and may change it (it may
  consume the file it is given). Nothing is assumed about any of them.
\<close>

record 'm platform =
  environ_model_path :: "string option"
  cuda_is_available :: bool
  restore_from :: "string \<Rightarrow> string \<Rightarrow> string + 'm"
  eval_mode :: "'m \<Rightarrow> string + unit"
  to_device :: "'m \<Rightarrow> string \<Rightarrow> string + 'm"
  asr_transcribe :: "'m \<Rightarrow> string list \<Rightarrow> fs \<Rightarrow> (string + pyval list) \<times> fs"
  temp_name :: "fs \<Rightarrow> string \<Rightarrow> string + string"

text \<open>An \<open>UploadFile\<close>: the declared content type, the file name, and the bytes that
  \<open>await upload.read()\<close> returns.\<close>

record upload_file =
  content_type :: "string option"
  filename :: "string option"
  file_content :: bytes

datatype response = JSONResponse "(string \<times> string) list"

text \<open>The globals as the module initialises them: \<open>_model = None\<close>, \<open>_device = "cpu"\<close>.\<close>

definition initial_state :: "fs \<Rightarrow> 'm state" where
  "initial_state f = \<lparr>model = None, device = ''cpu'', files = f, created = [], restores = 0\<rparr>"

definition os_path_exists :: "fs \<Rightarrow> string \<Rightarrow> bool" where
  "os_path_exists f path = (path \<in> dom f)"

text \<open>\<open>os.remove(path)\<close> removes the entry, or raises \<open>FileNotFoundError\<close> when there is
  none.\<close>

definition os_remove :: "fs \<Rightarrow> string \<Rightarrow> exn + fs" where
  "os_remove f path =
     (if path \<in> dom f then Inr (f(path := None)) else Inl (FileNotFoundError path))"

text \<open>
  \<open>os.path.splitext\<close> on a POSIX path: with \<open>sepIndex = p.rfind("/")\<close> and
  \<open>dotIndex = p.rfind(".")\<close>, the path is split at the last dot when that dot comes after
  the last separator and some character between the two is not a dot; otherwise the
  extension is empty. \<open>rfind\<close> is -1 when the character does not occur.
\<close>

definition rfind :: "string \<Rightarrow> char \<Rightarrow> int" where
  "rfind p c = int (length (dropWhile (\<lambda>x. x \<noteq> c) (rev p))) - 1"

definition splitext :: "string \<Rightarrow> string \<times> string" where
  "splitext p =
     (let sepIndex = rfind p CHR ''/'';
          dotIndex = rfind p CHR ''.''
      in if dotIndex > sepIndex \<and>
            list_ex (\<lambda>c. c \<noteq> CHR ''.'')
              (take (nat (dotIndex - (sepIndex + 1))) (drop (nat (sepIndex + 1)) p))
         then (take (nat dotIndex) p, drop (nat dotIndex) p)
         else (p, []))"

subsection \<open>\<open>_load_model\<close>\<close>

text \<open>
  \<^verbatim>\<open>
  def _load_model() -> None:
      global _model, _device
      if _model is not None:
          return
      model_path = os.environ.get("MODEL_PATH")
      if not model_path:
          raise RuntimeError("MODEL_PATH environment variable is not set.")
      if not os.path.exists(model_path):
          raise RuntimeError(f"MODEL_PATH does not exist: {model_path}")
      _device = "cuda" if torch.cuda.is_available() else "cpu"
      _model = ASRModel.restore_from(restore_path=model_path, map_location=_device)
      _model.eval()
      if _device == "cuda":
          _model = _model.to(_device)
  \<close>
  \<open>not model_path\<close> holds for \<open>None\<close> and for the empty string. The device is assigned
  before \<open>restore_from\<close> is called, and \<open>_model\<close> before \<open>eval\<close> is called, so each
  assignment stays when the next call raises.
\<close>

definition load_model :: "'m platform \<Rightarrow> 'm state \<Rightarrow> (exn + unit) \<times> 'm state" where
  "load_model w s =
     (if model s \<noteq> None then (Inr (), s)
      else
        (case environ_model_path w of
           None \<Rightarrow> (Inl (RuntimeError ''MODEL_PATH environment variable is not set.''), s)
         | Some model_path \<Rightarrow>
             if model_path = []
             then (Inl (RuntimeError ''MODEL_PATH environment variable is not set.''), s)
             else if \<not> os_path_exists (files s) model_path
             then (Inl (RuntimeError (''MODEL_PATH does not exist: '' @ model_path)), s)
             else
               let dev = (if cuda_is_available w then ''cuda'' else ''cpu'');
                   s1 = s\<lparr>device := dev, restores := restores s + 1\<rparr>
               in (case restore_from w model_path dev of
                     Inl e \<Rightarrow> (Inl (Raised e), s1)
                   | Inr m \<Rightarrow>
                       let s2 = s1\<lparr>model := Some m\<rparr>
                       in (case eval_mode w m of
                             Inl e \<Rightarrow> (Inl (Raised e), s2)
                           | Inr u \<Rightarrow>
                               if dev = ''cuda''
                               then (case to_device w m dev of
                                       Inl e \<Rightarrow> (Inl (Raised e), s2)
                                     | Inr m' \<Rightarrow> (Inr (), s2\<lparr>model := Some m'\<rparr>))
                               else (Inr (), s2)))))"

subsection \<open>\<open>_transcribe\<close>\<close>

text \<open>
  \<^verbatim>\<open>
  async def _transcribe(upload: UploadFile) -> str:
      if upload.content_type and not upload.content_type.startswith("audio"):
          raise HTTPException(status_code=400, detail="Invalid content type. Expected audio/*.")
      payload = await upload.read()
      if not payload:
          raise HTTPException(status_code=400, detail="Uploaded file is empty.")
      suffix = os.path.splitext(upload.filename or "audio.wav")[1] or ".wav"
      with tempfile.NamedTemporaryFile(delete=False, suffix=suffix) as tmp:
          tmp.write(payload)
          tmp.flush()
          temp_path = tmp.name
      try:
          assert _model is not None
          predictions = _model.transcribe([temp_path])
      finally:
          try:
              os.remove(temp_path)
          except FileNotFoundError:
              pass
      if not predictions:
          raise HTTPException(status_code=500, detail="ASR model returned no predictions.")
      return _coerce_prediction(predictions[0])
  \<close>
  One definition for each part: the test of the content type, the suffix, the
  \<open>with\<close> block, the body of the \<open>try\<close>, the \<open>finally\<close> block (which yields an exception
  only when the removal raises one that is not caught) and the last three lines.

  The \<open>with\<close> block stands before the \<open>try\<close>, and its suffix is the extension of the
  file name the client sent. \<open>NamedTemporaryFile\<close> opens the file with \<open>os.open\<close>, which
  raises \<open>ValueError\<close> (embedded null byte) for a path that holds a NUL character,
  whatever the platform; otherwise the operating system creates the file or refuses
  with an \<open>OSError\<close>. When it raises, no file has been created and the exception leaves
  \<open>_transcribe\<close>. Writing the payload to the open file and flushing it are taken to
  succeed.
\<close>

definition content_type_rejected :: "upload_file \<Rightarrow> bool" where
  "content_type_rejected upload =
     (case content_type upload of
        None \<Rightarrow> False
      | Some ct \<Rightarrow> ct \<noteq> [] \<and> \<not> startswith ct ''audio'')"

definition upload_suffix :: "upload_file \<Rightarrow> string" where
  "upload_suffix upload =
     (let name = (case filename upload of
                    None \<Rightarrow> ''audio.wav''
                  | Some f \<Rightarrow> if f = [] then ''audio.wav'' else f);
          ext = snd (splitext name)
      in if ext = [] then ''.wav'' else ext)"

definition named_temporary_file ::
  "'m platform \<Rightarrow> 'm state \<Rightarrow> string \<Rightarrow> bytes \<Rightarrow> (exn + string) \<times> 'm state" where
  "named_temporary_file w s suffix payload =
     (if CHR 0x00 \<in> set suffix then (Inl (ValueError ''embedded null byte''), s)
      else
        (case temp_name w (files s) suffix of
           Inl e \<Rightarrow> (Inl (OSError e), s)
         | Inr temp_path \<Rightarrow>
             (Inr temp_path,
              s\<lparr>files := (files s)(temp_path \<mapsto> payload),
                created := created s @ [temp_path]\<rparr>)))"

definition run_inference ::
  "'m platform \<Rightarrow> 'm state \<Rightarrow> string \<Rightarrow> (exn + pyval list) \<times> 'm state" where
  "run_inference w s temp_path =
     (case model s of
        None \<Rightarrow> (Inl AssertionError, s)
      | Some m \<Rightarrow>
          (case asr_transcribe w m [temp_path] (files s) of
             (Inl e, f) \<Rightarrow> (Inl (Raised e), s\<lparr>files := f\<rparr>)
           | (Inr predictions, f) \<Rightarrow> (Inr predictions, s\<lparr>files := f\<rparr>)))"

definition remove_temp_file :: "'m state \<Rightarrow> string \<Rightarrow> exn option \<times> 'm state" where
  "remove_temp_file s temp_path =
     (case os_remove (files s) temp_path of
        Inr f \<Rightarrow> (None, s\<lparr>files := f\<rparr>)
      | Inl (FileNotFoundError p) \<Rightarrow> (None, s)
      | Inl e \<Rightarrow> (Some e, s))"

definition first_prediction_text :: "pyval list \<Rightarrow> exn + string" where
  "first_prediction_text predictions =
     (case predictions of
        [] \<Rightarrow> Inl (HTTPException 500 ''ASR model returned no predictions.'')
      | p # ps \<Rightarrow> Inr (coerce_prediction p))"

definition transcribe_upload ::
  "'m platform \<Rightarrow> 'm state \<Rightarrow> upload_file \<Rightarrow> (exn + string) \<times> 'm state" where
  "transcribe_upload w s upload =
     (if content_type_rejected upload
      then (Inl (HTTPException 400 ''Invalid content type. Expected audio/*.''), s)
      else
        let payload = file_content upload
        in if payload = []
           then (Inl (HTTPException 400 ''Uploaded file is empty.''), s)
           else
             let suffix = upload_suffix upload
             in (case named_temporary_file w s suffix payload of
                   (Inl e, s1) \<Rightarrow> (Inl e, s1)
                 | (Inr temp_path, s1) \<Rightarrow>
                     let (outcome, s2) = run_inference w s1 temp_path;
                         (cleanup, s3) = remove_temp_file s2 temp_path
                     in (case cleanup of
                           Some e \<Rightarrow> (Inl e, s3)
                         | None \<Rightarrow>
                             (case outcome of
                                Inl e \<Rightarrow> (Inl e, s3)
                              | Inr predictions \<Rightarrow>
                                  (first_prediction_text predictions, s3)))))"

subsection \<open>The routes\<close>

text \<open>
  \<^verbatim>\<open>
  async def startup_event() -> None:
      _load_model()

  async def health_check() -> JSONResponse:
      status = "ready" if _model is not None else "loading"
      return JSONResponse({"status": status, "device": _device})

  async def transcribe(audio_file: UploadFile = File(...)) -> JSONResponse:
      if _model is None:
          _load_model()
      text = await _transcribe(audio_file)
      return JSONResponse({"text": text})
  \<close>
\<close>

definition startup_event :: "'m platform \<Rightarrow> 'm state \<Rightarrow> (exn + unit) \<times> 'm state" where
  "startup_event w s = load_model w s"

definition health_check :: "'m state \<Rightarrow> response" where
  "health_check s =
     (let status = (if model s \<noteq> None then ''ready'' else ''loading'')
      in JSONResponse [(''status'', status), (''device'', device s)])"

definition transcribe ::
  "'m platform \<Rightarrow> 'm state \<Rightarrow> upload_file \<Rightarrow> (exn + response) \<times> 'm state" where
  "transcribe w s audio_file =
     (case (if model s = None then load_model w s else (Inr (), s)) of
        (Inl e, s1) \<Rightarrow> (Inl e, s1)
      | (Inr u, s1) \<Rightarrow>
          (case transcribe_upload w s1 audio_file of
             (Inl e, s2) \<Rightarrow> (Inl e, s2)
           | (Inr t, s2) \<Rightarrow> (Inr (JSONResponse [(''text'', t)]), s2)))"

text \<open>
  The status line the framework sends: 200 for a returned \<open>JSONResponse\<close>, the
  \<open>status_code\<close> of an \<open>HTTPException\<close>, and 500 for any exception the route does not
  handle.
\<close>

fun response_status :: "exn + response \<Rightarrow> nat" where
  "response_status (Inr r) = 200"
| "response_status (Inl (HTTPException code detail)) = code"
| "response_status (Inl e) = 500"

fun json_field :: "response \<Rightarrow> string \<Rightarrow> string option" where
  "json_field (JSONResponse content) key = map_of content key"

subsection \<open>A concrete platform\<close>

text \<open>
  A platform, a state and uploads to evaluate the definitions on: the model file
  exists, there is no accelerator, loading gives the handle 7, inference returns one
  prediction, and a temporary file gets the name \<open>tmpa1b2c3d4\<close> followed by the suffix,
  unless that name is longer than the 255 characters a POSIX file system allows.
  \<open>consuming_platform\<close> differs in its inference, which deletes the file it is given
  before it raises; \<open>silent_platform\<close> in its inference, which returns no prediction.
  The file names of \<open>nul_upload\<close> and \<open>long_upload\<close> end in an extension with a NUL
  character and in one of 300 characters.
\<close>

definition demo_files :: fs where
  "demo_files = [''/models/parakeet.nemo'' \<mapsto> [1, 2, 3]]"

definition demo_platform :: "nat platform" where
  "demo_platform =
     \<lparr>environ_model_path = Some ''/models/parakeet.nemo'',
      cuda_is_available = False,
      restore_from = (\<lambda>path dev. Inr 7),
      eval_mode = (\<lambda>m. Inr ()),
      to_device = (\<lambda>m dev. Inr m),
      asr_transcribe = (\<lambda>m paths f. (Inr [PObj (Some (PStr '' hello world '')) ''Hypothesis'' ''Hypothesis''], f)),
      temp_name = (\<lambda>f suffix.
        if length (''tmpa1b2c3d4'' @ suffix) > 255 then Inl ''[Errno 36] File name too long''
        else Inr (''/tmp/tmpa1b2c3d4'' @ suffix))\<rparr>"


definition silent_platform :: "nat platform" where
  "silent_platform = demo_platform\<lparr>asr_transcribe := (\<lambda>m paths f. (Inr [], f))\<rparr>"

definition unconfigured_platform :: "nat platform" where
  "unconfigured_platform = demo_platform\<lparr>environ_model_path := Some ''/models/missing.nemo''\<rparr>"

definition demo_state :: "nat state" where
  "demo_state = initial_state demo_files"

definition ready_state :: "nat state" where
  "ready_state = demo_state\<lparr>model := Some 7, restores := 1\<rparr>"

definition wav_upload :: upload_file where
  "wav_upload =
     \<lparr>content_type = Some ''audio/wav'', filename = Some ''clip.flac'', file_content = [82, 73, 70, 70]\<rparr>"

definition text_upload :: upload_file where
  "text_upload =
     \<lparr>content_type = Some ''text/plain'', filename = Some ''notes.txt'', file_content = [104, 105]\<rparr>"

definition empty_upload :: upload_file where
  "empty_upload = \<lparr>content_type = Some ''audio/wav'', filename = None, file_content = []\<rparr>"



section \<open>Properties\<close>

subsection \<open>Trimming\<close>

text \<open>
  \<open>strip\<close> leaves a string that is empty or has no white space at either end, and
  it does not change such a string.
\<close>

lemma last_dropWhile_nonempty: "dropWhile P xs \<noteq> [] \<Longrightarrow> last (dropWhile P xs) = last xs"
  by (induction xs) (auto split: if_splits)

lemma strip_ends:
  "strip s = [] \<or> (\<not> is_space (hd (strip s)) \<and> \<not> is_space (last (strip s)))"
proof (cases "strip s = []")
  case True
  then show ?thesis by simp
next
  case False
  define t where "t = dropWhile is_space s"
  define u where "u = dropWhile is_space (rev t)"
  have r: "strip s = rev u"
    by (simp add: strip_def t_def u_def)
  with False have u: "u \<noteq> []" by simp
  then have t: "t \<noteq> []" by (auto simp: u_def)
  have "\<not> is_space (hd u)"
    using u unfolding u_def by (rule hd_dropWhile)
  then have l: "\<not> is_space (last (strip s))"
    using u by (simp add: r last_rev)
  have "last u = last (rev t)"
    using u unfolding u_def by (rule last_dropWhile_nonempty)
  then have "hd (strip s) = hd t"
    using u t by (simp add: r hd_rev last_rev)
  moreover have "\<not> is_space (hd t)"
    using t unfolding t_def by (rule hd_dropWhile)
  ultimately show ?thesis using l by simp
qed

lemma strip_fix:
  assumes "r = [] \<or> (\<not> is_space (hd r) \<and> \<not> is_space (last r))"
  shows "strip r = r"
proof (cases "r = []")
  case True
  then show ?thesis by (simp add: strip_def)
next
  case False
  with assms have h: "\<not> is_space (hd r)" and l: "\<not> is_space (last r)" by simp_all
  from h have a: "dropWhile is_space r = r"
    by (simp add: dropWhile_eq_self_iff)
  from l False have "dropWhile is_space (rev r) = rev r"
    by (simp add: dropWhile_eq_self_iff hd_rev)
  with a show ?thesis by (simp add: strip_def)
qed

lemma strip_strip: "strip (strip s) = strip s"
  by (rule strip_fix) (rule strip_ends)

subsection \<open>Coercion of predictions\<close>

lemma probe_keys_stripped: "probe_keys d ks = Some t \<Longrightarrow> strip t = t"
  by (induction ks) (auto simp: strip_strip split: pyval.splits if_splits)

lemma text_attr_or_str_stripped: "strip (text_attr_or_str v) = text_attr_or_str v"
  by (simp add: text_attr_or_str_def strip_strip split: pyval.splits)

lemma coerce_stripped:
  "strip (coerce_prediction v) = coerce_prediction v"
  "strip (coerce_items vs) = coerce_items vs"
proof (induction v and vs rule: coerce_prediction_coerce_items.induct)
  case (4 d)
  then show ?case
    by (auto simp: text_attr_or_str_stripped split: option.splits dest: probe_keys_stripped)
next
  case 9
  show ?case by (simp add: strip_def)
next
  case (10 item rest)
  then show ?case by (simp add: Let_def)
qed (simp_all add: strip_strip text_attr_or_str_stripped)

text \<open>
  Claim C10. For every prediction value (a string, a list or tuple, a dictionary,
  an object with or without a \<open>text\<close> attribute, \<open>None\<close>, a truth value, an integer),
  the text \<open>_coerce_prediction\<close> returns equals its own trimmed copy, and neither its
  first nor its last character is white space.
\<close>

theorem coerce_prediction_trimmed:
  "strip (coerce_prediction v) = coerce_prediction v \<and>
   list_all (\<lambda>c. \<not> is_space c) (take 1 (coerce_prediction v)) \<and>
   list_all (\<lambda>c. \<not> is_space c) (take 1 (rev (coerce_prediction v)))"
proof -
  have s: "strip (coerce_prediction v) = coerce_prediction v"
    by (rule coerce_stripped)
  have e: "coerce_prediction v = [] \<or>
    (\<not> is_space (hd (coerce_prediction v)) \<and> \<not> is_space (last (coerce_prediction v)))"
    using strip_ends [of "coerce_prediction v"] by (simp only: s)
  then have "list_all (\<lambda>c. \<not> is_space c) (take 1 (coerce_prediction v))"
    by (cases "coerce_prediction v") auto
  moreover from e have "list_all (\<lambda>c. \<not> is_space c) (take 1 (rev (coerce_prediction v)))"
    by (cases "coerce_prediction v" rule: rev_cases) auto
  ultimately show ?thesis using s by simp
qed

theorem coerce_prediction_trimmed_witness:
  "coerce_prediction (PList [PStr ''  '', PDict [(PStr ''text'', PStr '' hi '')]]) = ''hi'' \<and>
   strip ''hi'' = ''hi'' \<and>
   list_all (\<lambda>c. \<not> is_space c) (take 1 ''hi'') \<and>
   list_all (\<lambda>c. \<not> is_space c) (take 1 (rev ''hi''))"
proof -
  have v: "coerce_prediction (PList [PStr ''  '', PDict [(PStr ''text'', PStr '' hi '')]]) = ''hi''"
    by code_simp
  show ?thesis
    using coerce_prediction_trimmed
      [of "PList [PStr ''  '', PDict [(PStr ''text'', PStr '' hi '')]]"]
    unfolding v by (simp add: v)
qed

text \<open>
  Claim C1, as the specification states it: the two-element list
  \<open>[{"foo": "x"}, {"text": " hi "}]\<close> is coerced to \<open>hi\<close>. The function returns
  something else.
\<close>

theorem coerce_list_of_mappings_counterexample:
  "coerce_prediction
     (PList [PDict [(PStr ''foo'', PStr ''x'')], PDict [(PStr ''text'', PStr '' hi '')]])
   \<noteq> ''hi''"
  by code_simp

text \<open>
  Claim C1, amended. In \<open>[{"foo": "x"}, {"text": " hi "}]\<close> no candidate key matches the
  first element, which therefore falls through to \<open>str(prediction).strip()\<close>; this is
  the non-empty text \<open>{'foo': 'x'}\<close>, and the loop returns it without looking at the
  second element. An element is skipped when it coerces to the empty text: for
  \<open>[" ", {"text": " hi "}]\<close> the result is \<open>hi\<close>.
\<close>

theorem coerce_list_of_mappings:
  "probe_keys [(PStr ''foo'', PStr ''x'')] candidate_keys = None \<and>
   coerce_prediction (PDict [(PStr ''foo'', PStr ''x'')]) =
     ''{'' @ [CHR 0x27] @ ''foo'' @ [CHR 0x27] @ '': '' @ [CHR 0x27] @ ''x'' @ [CHR 0x27] @ ''}'' \<and>
   coerce_prediction
     (PList [PDict [(PStr ''foo'', PStr ''x'')], PDict [(PStr ''text'', PStr '' hi '')]]) =
     ''{'' @ [CHR 0x27] @ ''foo'' @ [CHR 0x27] @ '': '' @ [CHR 0x27] @ ''x'' @ [CHR 0x27] @ ''}'' \<and>
   coerce_prediction (PList [PStr '' '', PDict [(PStr ''text'', PStr '' hi '')]]) = ''hi''"
  by code_simp

text \<open>
  Claim C2, as the specification states it: the dictionary \<open>{"result": ""}\<close> is
  coerced to the empty text. The function returns a non-empty text.
\<close>

theorem coerce_empty_result_counterexample:
  "coerce_prediction (PDict [(PStr ''result'', PStr [])]) \<noteq> []"
  by code_simp

text \<open>
  Claim C2, amended. For \<open>{"result": ""}\<close> the empty value fails the test
  \<open>value.strip()\<close>, so no candidate key matches; the dictionary has no \<open>text\<close>
  attribute, and the function returns the trimmed \<open>str\<close> of the dictionary, which is
  the text \<open>{'result': ''}\<close>.
\<close>

theorem coerce_empty_result:
  "probe_keys [(PStr ''result'', PStr [])] candidate_keys = None \<and>
   getattr_text (PDict [(PStr ''result'', PStr [])]) = PNone \<and>
   coerce_prediction (PDict [(PStr ''result'', PStr [])]) =
     ''{'' @ [CHR 0x27] @ ''result'' @ [CHR 0x27] @ '': '' @ [CHR 0x27, CHR 0x27] @ ''}''"
  by code_simp

subsection \<open>Loading the model\<close>

lemma fst_load_model_cases:
  "model s = None \<Longrightarrow>
   (\<exists>msg. fst (load_model w s) = Inl (RuntimeError msg)) =
   (environ_model_path w = None \<or> environ_model_path w = Some [] \<or>
    (\<exists>p. environ_model_path w = Some p \<and> \<not> os_path_exists (files s) p))"
  by (auto simp: load_model_def Let_def split: option.splits sum.splits)

lemma load_model_config_error_state:
  "fst (load_model w s) = Inl (RuntimeError msg) \<Longrightarrow> snd (load_model w s) = s"
  by (auto simp: load_model_def Let_def split: option.splits sum.splits if_splits)

lemma load_model_success_model:
  "fst (load_model w s) = Inr () \<Longrightarrow> model (snd (load_model w s)) \<noteq> None"
  by (auto simp: load_model_def Let_def split: option.splits sum.splits if_splits)

lemma load_model_success_restores:
  "model s = None \<Longrightarrow> fst (load_model w s) = Inr () \<Longrightarrow>
   restores (snd (load_model w s)) = restores s + 1"
  by (auto simp: load_model_def Let_def split: option.splits sum.splits if_splits)

lemma load_model_loaded: "model s \<noteq> None \<Longrightarrow> load_model w s = (Inr (), s)"
  by (simp add: load_model_def)

text \<open>
  Claim C6. \<open>_load_model\<close> is idempotent: with a model handle present it returns at
  once and leaves the whole state as it is; and when a first call, made without a
  handle, succeeds, a second call changes nothing, so that after both calls
  \<open>ASRModel.restore_from\<close> has run exactly once more than before.
\<close>

theorem load_model_idempotent:
  "(model s \<noteq> None \<longrightarrow> load_model w s = (Inr (), s)) \<and>
   (model s = None \<and> fst (load_model w s) = Inr () \<longrightarrow>
      load_model w (snd (load_model w s)) = (Inr (), snd (load_model w s)) \<and>
      restores (snd (load_model w (snd (load_model w s)))) = restores s + 1)"
  by (simp add: load_model_loaded load_model_success_model load_model_success_restores)

theorem load_model_idempotent_witness:
  "model demo_state = None \<and> fst (load_model demo_platform demo_state) = Inr () \<and>
   load_model demo_platform (snd (load_model demo_platform demo_state)) =
     (Inr (), snd (load_model demo_platform demo_state)) \<and>
   restores (snd (load_model demo_platform (snd (load_model demo_platform demo_state)))) =
     restores demo_state + 1 \<and>
   restores demo_state = 0 \<and>
   model ready_state \<noteq> None \<and> load_model demo_platform ready_state = (Inr (), ready_state)"
proof -
  have a: "model demo_state = None"
    by (simp add: demo_state_def initial_state_def)
  have b: "fst (load_model demo_platform demo_state) = Inr ()"
    by (simp add: load_model_def demo_state_def initial_state_def demo_platform_def
        demo_files_def os_path_exists_def)
  have c: "restores demo_state = 0"
    by (simp add: demo_state_def initial_state_def)
  have d: "model ready_state \<noteq> None"
    by (simp add: ready_state_def)
  show ?thesis
    using a b c d load_model_idempotent [of demo_state demo_platform]
      load_model_idempotent [of ready_state demo_platform]
    by blast
qed

text \<open>
  Claim C7. Without a model handle, \<open>_load_model\<close> raises one of its two
  \<open>RuntimeError\<close>s exactly when \<open>MODEL_PATH\<close> is unset or empty or names no existing
  entry of the file system. Such a failure leaves the state as it was: the handle is
  still absent, \<open>/healthz\<close> still reports \<open>loading\<close>, and the next call of the route
  \<open>transcribe\<close> (same environment, any upload) raises the same error, which the
  framework answers with status 500.
\<close>

theorem load_model_configuration_error:
  assumes "model s = None"
  shows "((\<exists>msg. fst (load_model w s) = Inl (RuntimeError msg)) \<longleftrightarrow>
            (environ_model_path w = None \<or> environ_model_path w = Some [] \<or>
             (\<exists>p. environ_model_path w = Some p \<and> \<not> os_path_exists (files s) p))) \<and>
         (\<forall>msg. fst (load_model w s) = Inl (RuntimeError msg) \<longrightarrow>
            snd (load_model w s) = s \<and>
            model (snd (load_model w s)) = None \<and>
            json_field (health_check (snd (load_model w s))) ''status'' = Some ''loading'' \<and>
            (\<forall>upload.
               transcribe w (snd (load_model w s)) upload = (Inl (RuntimeError msg), s) \<and>
               response_status (fst (transcribe w (snd (load_model w s)) upload)) = 500))"
proof (intro conjI allI impI)
  show "(\<exists>msg. fst (load_model w s) = Inl (RuntimeError msg)) \<longleftrightarrow>
        (environ_model_path w = None \<or> environ_model_path w = Some [] \<or>
         (\<exists>p. environ_model_path w = Some p \<and> \<not> os_path_exists (files s) p))"
    using assms by (rule fst_load_model_cases)
next
  fix msg
  assume e: "fst (load_model w s) = Inl (RuntimeError msg)"
  then have u: "snd (load_model w s) = s"
    by (rule load_model_config_error_state)
  show "snd (load_model w s) = s" by (rule u)
  show "model (snd (load_model w s)) = None" using assms u by simp
  show "json_field (health_check (snd (load_model w s))) ''status'' = Some ''loading''"
    using assms u by (simp add: health_check_def)
  fix upload
  from e u have l: "load_model w s = (Inl (RuntimeError msg), s)"
    by (simp add: prod_eq_iff)
  show t: "transcribe w (snd (load_model w s)) upload = (Inl (RuntimeError msg), s)"
    using assms by (simp add: u transcribe_def l)
  show "response_status (fst (transcribe w (snd (load_model w s)) upload)) = 500"
    by (simp add: t)
qed

theorem load_model_configuration_error_witness:
  "model demo_state = None \<and>
   environ_model_path unconfigured_platform = Some ''/models/missing.nemo'' \<and>
   \<not> os_path_exists (files demo_state) ''/models/missing.nemo'' \<and>
   fst (load_model unconfigured_platform demo_state) =
     Inl (RuntimeError ''MODEL_PATH does not exist: /models/missing.nemo'') \<and>
   snd (load_model unconfigured_platform demo_state) = demo_state \<and>
   json_field (health_check (snd (load_model unconfigured_platform demo_state))) ''status'' =
     Some ''loading'' \<and>
   response_status
     (fst (transcribe unconfigured_platform
            (snd (load_model unconfigured_platform demo_state)) wav_upload)) = 500"
proof -
  have a: "model demo_state = None"
    by (simp add: demo_state_def initial_state_def)
  have b: "environ_model_path unconfigured_platform = Some ''/models/missing.nemo''"
    by (simp add: unconfigured_platform_def)
  have c: "\<not> os_path_exists (files demo_state) ''/models/missing.nemo''"
    by (simp add: os_path_exists_def demo_state_def initial_state_def demo_files_def)
  have d: "fst (load_model unconfigured_platform demo_state) =
     Inl (RuntimeError ''MODEL_PATH does not exist: /models/missing.nemo'')"
    using a b c by (simp add: load_model_def)
  show ?thesis
    using a b c d load_model_configuration_error [OF a, of unconfigured_platform]
    by blast
qed

subsection \<open>The health endpoint\<close>

text \<open>
  Claim C8. \<open>health_check\<close> reports \<open>ready\<close> if and only if a model handle exists and
  \<open>loading\<close> otherwise, together with the current device label; in the state the
  module starts in, before any load attempt, that label is \<open>cpu\<close>.
\<close>

theorem health_check_status:
  "json_field (health_check (s :: 'm state)) ''status'' =
     Some (if model s \<noteq> None then ''ready'' else ''loading'') \<and>
   (json_field (health_check s) ''status'' = Some ''ready'' \<longleftrightarrow> model s \<noteq> None) \<and>
   (json_field (health_check s) ''status'' = Some ''loading'' \<longleftrightarrow> model s = None) \<and>
   json_field (health_check s) ''device'' = Some (device s) \<and>
   health_check (initial_state f :: 'm state) =
     JSONResponse [(''status'', ''loading''), (''device'', ''cpu'')]"
  by (simp add: health_check_def initial_state_def)

theorem health_check_status_witness:
  "json_field (health_check ready_state) ''status'' = Some ''ready'' \<and>
   json_field (health_check ready_state) ''device'' = Some ''cpu'' \<and>
   model ready_state \<noteq> None \<and>
   json_field (health_check demo_state) ''status'' = Some ''loading'' \<and>
   model demo_state = None"
proof -
  have a: "model ready_state \<noteq> None" "device ready_state = ''cpu''"
    by (simp_all add: ready_state_def demo_state_def initial_state_def)
  have b: "model demo_state = None"
    by (simp add: demo_state_def initial_state_def)
  show ?thesis
    using a b health_check_status [of ready_state demo_files]
      health_check_status [of demo_state demo_files]
    by simp
qed

subsection \<open>The transcription handler\<close>

lemma remove_temp_file_effect:
  "remove_temp_file s p = (None, s\<lparr>files := (files s)(p := None)\<rparr>)"
proof (cases "p \<in> dom (files s)")
  case True
  then show ?thesis by (simp add: remove_temp_file_def os_remove_def)
next
  case False
  then have "(files s)(p := None) = files s" by (simp add: domIff)
  with False show ?thesis by (simp add: remove_temp_file_def os_remove_def)
qed


lemma named_temporary_file_created:
  "fst (named_temporary_file w s suffix payload) = Inr temp_path \<Longrightarrow>
   snd (named_temporary_file w s suffix payload) =
     s\<lparr>files := (files s)(temp_path \<mapsto> payload), created := created s @ [temp_path]\<rparr>"
  by (auto simp: named_temporary_file_def split: if_splits sum.splits)


lemma transcribe_upload_valid:
  assumes "\<not> content_type_rejected upload" and "file_content upload \<noteq> []"
    and "fst (named_temporary_file w s (upload_suffix upload) (file_content upload)) =
         Inr temp_path"
  shows "transcribe_upload w s upload =
    (let s1 = snd (named_temporary_file w s (upload_suffix upload) (file_content upload));
         r = run_inference w s1 temp_path
     in ((case fst r of Inl e \<Rightarrow> Inl e | Inr predictions \<Rightarrow> first_prediction_text predictions),
         (snd r)\<lparr>files := (files (snd r))(temp_path := None)\<rparr>))"
proof -
  obtain s1 where n: "named_temporary_file w s (upload_suffix upload) (file_content upload) =
      (Inr temp_path, s1)"
    using assms(3) by (cases "named_temporary_file w s (upload_suffix upload) (file_content upload)")
      simp
  show ?thesis
    using assms(1,2)
    by (simp add: transcribe_upload_def Let_def n remove_temp_file_effect
        split: prod.splits sum.splits)
qed





text \<open>
  The uploads and the state of the concrete platform, evaluated.
\<close>

lemma valid_wav_upload:
  "\<not> content_type_rejected wav_upload" "file_content wav_upload \<noteq> []"
  "upload_suffix wav_upload = ''.flac''"
  by (simp_all add: wav_upload_def content_type_rejected_def startswith_def
      upload_suffix_def splitext_def rfind_def Let_def)




lemma ready_state_fields:
  "model ready_state = Some 7" "created ready_state = []" "files ready_state = demo_files"
  by (simp_all add: ready_state_def demo_state_def initial_state_def)

text \<open>
  Claim C3. When the upload declares a content type (a non-empty string; Python
  takes the empty string, like \<open>None\<close>, for no declaration) that does not start with
  \<open>audio\<close>, \<open>_transcribe\<close> raises \<open>HTTPException\<close> with status 400 and the state is
  what it was: no temporary file has been created and the file system is untouched.
\<close>

theorem transcribe_upload_rejects_content_type:
  assumes "content_type upload = Some ct" and "ct \<noteq> []" and "\<not> startswith ct ''audio''"
  shows "transcribe_upload w s upload =
           (Inl (HTTPException 400 ''Invalid content type. Expected audio/*.''), s) \<and>
         created (snd (transcribe_upload w s upload)) = created s \<and>
         files (snd (transcribe_upload w s upload)) = files s"
  using assms by (simp add: transcribe_upload_def content_type_rejected_def)

theorem transcribe_upload_rejects_content_type_witness:
  "content_type text_upload = Some ''text/plain'' \<and> ''text/plain'' \<noteq> [] \<and>
   \<not> startswith ''text/plain'' ''audio'' \<and>
   transcribe_upload demo_platform ready_state text_upload =
     (Inl (HTTPException 400 ''Invalid content type. Expected audio/*.''), ready_state) \<and>
   created (snd (transcribe_upload demo_platform ready_state text_upload)) = []"
proof -
  have a: "content_type text_upload = Some ''text/plain''"
    by (simp add: text_upload_def)
  have b: "''text/plain'' \<noteq> []" by simp
  have c: "\<not> startswith ''text/plain'' ''audio''"
    by (simp add: startswith_def)
  have d: "created ready_state = []"
    by (simp add: ready_state_def demo_state_def initial_state_def)
  show ?thesis
    using a b c d transcribe_upload_rejects_content_type [OF a b c, of demo_platform ready_state]
    by simp
qed

text \<open>
  Claim C4. When the bytes read from the upload are empty, \<open>_transcribe\<close> raises
  \<open>HTTPException\<close> with status 400 (with the detail of the content-type test when that
  test fails first, with \<open>Uploaded file is empty.\<close> otherwise) and the state is what
  it was.
\<close>

theorem transcribe_upload_rejects_empty_payload:
  assumes "file_content upload = []"
  shows "transcribe_upload w s upload =
           (Inl (HTTPException 400
                  (if content_type_rejected upload
                   then ''Invalid content type. Expected audio/*.''
                   else ''Uploaded file is empty.'')), s)"
  using assms by (simp add: transcribe_upload_def)

theorem transcribe_upload_rejects_empty_payload_witness:
  "file_content empty_upload = [] \<and>
   transcribe_upload demo_platform ready_state empty_upload =
     (Inl (HTTPException 400 ''Uploaded file is empty.''), ready_state)"
proof -
  have a: "file_content empty_upload = []"
    by (simp add: empty_upload_def)
  have b: "\<not> content_type_rejected empty_upload"
    by (simp add: empty_upload_def content_type_rejected_def startswith_def)
  show ?thesis
    using a b transcribe_upload_rejects_empty_payload [OF a, of demo_platform ready_state]
    by simp
qed




text \<open>
  Claim C9. For an upload that passes both validations and has been staged in its
  temporary file, and a model whose inference call on that file returns a sequence
  of predictions, \<open>_transcribe\<close> raises \<open>HTTPException\<close> with status 500 if and only if
  the sequence is empty, and otherwise returns the coercion of its first element.
\<close>

theorem transcribe_upload_predictions:
  assumes "\<not> content_type_rejected upload" and "file_content upload \<noteq> []"
    and "model s = Some m"
    and "fst (named_temporary_file w s (upload_suffix upload) (file_content upload)) =
         Inr temp_path"
    and "asr_transcribe w m [temp_path] ((files s)(temp_path \<mapsto> file_content upload)) =
         (Inr predictions, f)"
  shows "fst (transcribe_upload w s upload) =
           (case predictions of
              [] \<Rightarrow> Inl (HTTPException 500 ''ASR model returned no predictions.'')
            | p # ps \<Rightarrow> Inr (coerce_prediction p)) \<and>
         ((\<exists>e. fst (transcribe_upload w s upload) = Inl e) \<longleftrightarrow> predictions = []) \<and>
         (fst (transcribe_upload w s upload) =
            Inl (HTTPException 500 ''ASR model returned no predictions.'') \<longleftrightarrow>
          predictions = []) \<and>
         (predictions \<noteq> [] \<longrightarrow>
            fst (transcribe_upload w s upload) = Inr (coerce_prediction (hd predictions)))"
proof -
  have "fst (transcribe_upload w s upload) = first_prediction_text predictions"
    using assms(3,5)
    by (simp add: transcribe_upload_valid [OF assms(1,2,4)] Let_def run_inference_def
        named_temporary_file_created [OF assms(4)])
  then show ?thesis
    by (cases predictions) (simp_all add: first_prediction_text_def)
qed

theorem transcribe_upload_predictions_witness:
  "\<not> content_type_rejected wav_upload \<and> file_content wav_upload \<noteq> [] \<and>
   model ready_state = Some 7 \<and>
   fst (named_temporary_file demo_platform ready_state (upload_suffix wav_upload)
         (file_content wav_upload)) = Inr ''/tmp/tmpa1b2c3d4.flac'' \<and>
   fst (transcribe_upload demo_platform ready_state wav_upload) = Inr ''hello world'' \<and>
   fst (named_temporary_file silent_platform ready_state (upload_suffix wav_upload)
         (file_content wav_upload)) = Inr ''/tmp/tmpa1b2c3d4.flac'' \<and>
   fst (transcribe_upload silent_platform ready_state wav_upload) =
     Inl (HTTPException 500 ''ASR model returned no predictions.'')"
proof -
  note a = valid_wav_upload(1,2)
  note m = ready_state_fields(1)
  let ?h = "PObj (Some (PStr '' hello world '')) ''Hypothesis'' ''Hypothesis''"
  have n1: "fst (named_temporary_file demo_platform ready_state (upload_suffix wav_upload)
         (file_content wav_upload)) = Inr ''/tmp/tmpa1b2c3d4.flac''"
    by (simp add: named_temporary_file_def valid_wav_upload(3) demo_platform_def)
  have n2: "fst (named_temporary_file silent_platform ready_state (upload_suffix wav_upload)
         (file_content wav_upload)) = Inr ''/tmp/tmpa1b2c3d4.flac''"
    by (simp add: named_temporary_file_def valid_wav_upload(3) silent_platform_def
        demo_platform_def)
  have i: "asr_transcribe demo_platform 7 paths g = (Inr [?h], g)" for paths g
    by (simp add: demo_platform_def)
  have j: "asr_transcribe silent_platform 7 paths g = (Inr [], g)" for paths g
    by (simp add: silent_platform_def)
  have c: "coerce_prediction ?h = ''hello world''"
    by (simp add: text_attr_or_str_def strip_def is_space_def)
  have e1: "fst (transcribe_upload demo_platform ready_state wav_upload) = Inr ''hello world''"
    using transcribe_upload_predictions [OF a m n1 i, THEN conjunct1]
    by (simp only: list.case c)
  have e2: "fst (transcribe_upload silent_platform ready_state wav_upload) =
      Inl (HTTPException 500 ''ASR model returned no predictions.'')"
    using transcribe_upload_predictions [OF a m n2 j, THEN conjunct1]
    by (simp only: list.case)
  show ?thesis
    using a m n1 e1 n2 e2 by (intro conjI)
qed

end
